theory Spec2Isabelle
  imports Main "HOL-Library.Word"
begin

section \<open>The client component of the number-elimination game (src/components/Game.tsx)\<close>

text \<open>
  The component is a React function component: a set of state cells (\<open>useState\<close>),
  mutable references (\<open>useRef\<close>), one socket with a handler per inbound message, a few
  click handlers and the conditions under which the controls that call them are rendered.
  The embedding is a record of all cells and references, one state-transforming function
  per handler, and an explicit model of what the code leaves to its environment:
  the messages handed to \<open>socket.emit\<close> (a list, in order), and the timers armed with
  \<open>setTimeout\<close> (a list of pending timers, a clock in milliseconds, and a function that
  lets time pass and runs the callbacks that fall due).
\<close>

subsection \<open>Strings\<close>

text \<open>
  A JavaScript string is a sequence of 16-bit code units; \<open>length\<close> counts code units.
\<close>

type_synonym js_string = "16 word list"

definition js_str :: "string \<Rightarrow> js_string" where
  "js_str cs = map (\<lambda>c. of_nat (of_char c)) cs"

text \<open>
  \<open>String.prototype.trim\<close> removes, at both ends, the code units that ECMAScript calls
  WhiteSpace (TAB, VT, FF, ZWNBSP and the Unicode space separators) or LineTerminator
  (LF, CR, LS, PS).
\<close>

definition isWhiteSpace :: "16 word \<Rightarrow> bool" where
  "isWhiteSpace c \<longleftrightarrow>
     c = 0x0009 \<or> c = 0x000A \<or> c = 0x000B \<or> c = 0x000C \<or> c = 0x000D \<or> c = 0x0020 \<or>
     c = 0x00A0 \<or> c = 0x1680 \<or> (0x2000 \<le> c \<and> c \<le> 0x200A) \<or> c = 0x2028 \<or> c = 0x2029 \<or>
     c = 0x202F \<or> c = 0x205F \<or> c = 0x3000 \<or> c = 0xFEFF"

definition trim :: "js_string \<Rightarrow> js_string" where
  "trim s = rev (dropWhile isWhiteSpace (rev (dropWhile isWhiteSpace s)))"

subsection \<open>Data model (the interfaces at the top of Game.tsx)\<close>

text \<open>
  \<open>interface Player\<close>. The field \<open>id\<close> is named \<open>id_player\<close> here, \<open>id\<close> being the
  identity function of HOL. A JavaScript number that the protocol uses as an integer is
  an \<open>int\<close>; \<open>number | null\<close> is an \<open>int option\<close>.
\<close>

record Player =
  name :: js_string
  selectedNumber :: "int option"
  isEliminated :: bool
  placement :: "int option"
  id_player :: js_string

text \<open>
  \<open>interface GameState\<close>. The handler of \<open>lobbyJoined\<close> also writes a property
  \<open>status\<close> that the interface does not declare; every other handler carries it over
  with the spread \<open>...prev\<close>, so the object has it at run time and the record has it too.
\<close>

record GameState =
  players :: "Player list"
  numbers :: "int list"
  currentTurn :: "js_string option"
  currentPlayerName :: "js_string option"
  gameStarted :: bool
  boardSize :: int
  status :: "js_string option"

text \<open>One entry of \<open>GameOverInfo.placements\<close>.\<close>

record Placement =
  pl_name :: js_string
  pl_number :: int
  pl_placement :: int

text \<open>\<open>interface PlayerElimination\<close>.\<close>

record PlayerElimination =
  el_playerName :: js_string
  el_number :: int
  el_placement :: int
  el_totalPlayers :: int

datatype LobbyStep = Menu | Create | Join | Joining | Creating

datatype GameResult = Won | Lost

subsection \<open>The environment: outbound messages, the socket, timers\<close>

text \<open>The messages the component hands to \<open>socket.emit\<close>, with their payloads.\<close>

datatype Outbound =
    CreateLobby int
  | JoinLobby js_string js_string
  | SelectNumber int
  | StartGame
  | EliminateNumber int
  | PlayerReadyForReplay
  | LeaveLobby

text \<open>
  The socket object behind \<open>socketRef.current\<close>: its \<open>id\<close> (undefined until the
  handshake completes) and the messages emitted on it so far, oldest first.
\<close>

record SocketIO =
  socket_id :: "js_string option"
  emitted :: "Outbound list"

text \<open>
  The three callbacks the component ever passes to \<open>setTimeout\<close>:
  \<open>() => setError(null)\<close>, \<open>() => setEliminationInfo(null)\<close> and
  \<open>() => { justPickedNumber.current = false; }\<close>.
\<close>

datatype TimerCallback = ClearError | ClearEliminationInfo | ClearJustPicked

record Timer =
  timer_id :: nat
  due :: nat
  callback :: TimerCallback

subsection \<open>The component's state\<close>

text \<open>
  One field per \<open>useState\<close> cell and per \<open>useRef\<close> of \<open>Game()\<close>, then the environment:
  the clock \<open>now\<close> (milliseconds), the pending timers in the order they were armed, and
  the next timer id. The cell \<open>boardSize\<close> of the create form is \<open>boardSizeChoice\<close>
  (the snapshot has a field of the same name), the cells \<open>error\<close> and \<open>gameOver\<close> are
  \<open>errorMsg\<close> and \<open>isGameOver\<close> (the handlers of the messages \<open>error\<close> and
  \<open>gameOver\<close> keep the plain names). \<open>playerNameRef.current\<close> is synchronised with
  \<open>playerName\<close> by an effect after every render that changed it, so the two have the same
  value whenever a handler runs and share the field \<open>playerName\<close>.
\<close>

record Client =
  playerName :: js_string
  boardSizeChoice :: int
  gameState :: GameState
  errorMsg :: "js_string option"
  isGameOver :: bool
  gameResult :: "GameResult option"
  gameOverInfo :: "Placement list option"
  eliminationInfo :: "PlayerElimination option"
  showStartScreen :: bool
  showInfo :: bool
  lobbyCode :: "js_string option"
  joinCodeInput :: js_string
  lobbyStep :: LobbyStep
  socketRef :: "SocketIO option"
  mySocketId :: "js_string option"
  errorTimeout :: "nat option"
  justPickedNumber :: bool
  now :: nat
  timers :: "Timer list"
  nextTimerId :: nat

text \<open>\<open>Array.from({ length: n }, (_, i) => i + 1)\<close>; a length below 1 gives the empty array.\<close>

definition arrayFromLength :: "int \<Rightarrow> int list" where
  "arrayFromLength n = map (\<lambda>i. int i + 1) [0..<nat n]"

definition defaultGameState :: GameState where
  "defaultGameState =
     \<lparr> players = [], numbers = arrayFromLength 20, currentTurn = None,
       currentPlayerName = None, gameStarted = False, boardSize = 20, status = None \<rparr>"

text \<open>
  The state after the first render and the mount effect: every cell at its initial value,
  the socket created (\<open>socketRef.current = newSocket\<close>) but not yet connected.
\<close>

definition mounted :: Client where
  "mounted =
     \<lparr> playerName = [], boardSizeChoice = 20, gameState = defaultGameState,
       errorMsg = None, isGameOver = False, gameResult = None, gameOverInfo = None,
       eliminationInfo = None, showStartScreen = True, showInfo = False,
       lobbyCode = None, joinCodeInput = [], lobbyStep = Menu,
       socketRef = Some \<lparr> socket_id = None, emitted = [] \<rparr>, mySocketId = None,
       errorTimeout = None, justPickedNumber = False,
       now = 0, timers = [], nextTimerId = 1 \<rparr>"

subsection \<open>Socket and timer primitives\<close>

text \<open>\<open>socketRef.current?.emit(m)\<close>: nothing happens while the reference is null.\<close>

definition emit :: "Outbound \<Rightarrow> Client \<Rightarrow> Client" where
  "emit m s =
     (case socketRef s of
        None \<Rightarrow> s
      | Some k \<Rightarrow> s\<lparr> socketRef := Some (k\<lparr> emitted := emitted k @ [m] \<rparr>) \<rparr>)"

text \<open>Everything emitted so far.\<close>

definition outbox :: "Client \<Rightarrow> Outbound list" where
  "outbox s = (case socketRef s of None \<Rightarrow> [] | Some k \<Rightarrow> emitted k)"

text \<open>\<open>socketRef.current?.id\<close>.\<close>

definition socketId :: "Client \<Rightarrow> js_string option" where
  "socketId s = (case socketRef s of None \<Rightarrow> None | Some k \<Rightarrow> socket_id k)"

text \<open>
  \<open>setTimeout(cb, delay)\<close> appends a timer due \<open>delay\<close> ms from now; the id it returns is
  \<open>nextTimerId\<close> of the state before the call. \<open>clearTimeout(h)\<close> removes the pending timer
  with that id, and does nothing when it has fired already.
\<close>

definition setTimeout :: "TimerCallback \<Rightarrow> nat \<Rightarrow> Client \<Rightarrow> Client" where
  "setTimeout cb delay s =
     s\<lparr> timers := timers s @ [\<lparr> timer_id = nextTimerId s, due = now s + delay, callback = cb \<rparr>],
        nextTimerId := Suc (nextTimerId s) \<rparr>"

definition clearTimeout :: "nat \<Rightarrow> Client \<Rightarrow> Client" where
  "clearTimeout h s = s\<lparr> timers := filter (\<lambda>t. timer_id t \<noteq> h) (timers s) \<rparr>"

fun fire :: "TimerCallback \<Rightarrow> Client \<Rightarrow> Client" where
  "fire ClearError s = s\<lparr> errorMsg := None \<rparr>"
| "fire ClearEliminationInfo s = s\<lparr> eliminationInfo := None \<rparr>"
| "fire ClearJustPicked s = s\<lparr> justPickedNumber := False \<rparr>"

text \<open>
  \<open>elapse d\<close> lets \<open>d\<close> milliseconds pass with no message and no click: the timers due by
  then run, earliest first and in arming order among equals (the sort is stable), and
  leave the list of pending timers. No callback arms or cancels a timer.
\<close>

definition elapse :: "nat \<Rightarrow> Client \<Rightarrow> Client" where
  "elapse d s =
     (let t = now s + d;
          ready = sort_key due (filter (\<lambda>tm. due tm \<le> t) (timers s));
          s' = s\<lparr> now := t, timers := filter (\<lambda>tm. \<not> due tm \<le> t) (timers s) \<rparr>
      in foldl (\<lambda>a tm. fire (callback tm) a) s' ready)"

subsection \<open>Handlers of inbound messages (the \<open>newSocket.on\<close> calls of the mount effect)\<close>

text \<open>
  The handlers are registered on the socket the effect has just stored in
  \<open>socketRef.current\<close>, so they only ever run with the reference set. They are created
  once, by the effect of the first render: a state cell read directly inside one of them
  has its value of the first render (\<open>playerName\<close> is the empty string there), a
  reference's \<open>.current\<close> and the argument of a functional update are current.
\<close>

text \<open>\<open>connect\<close>: socket.io has set \<open>newSocket.id\<close>; \<open>setMySocketId(newSocket.id ?? null)\<close>.\<close>

definition on_connect :: "js_string \<Rightarrow> Client \<Rightarrow> Client" where
  "on_connect sid s =
     (case socketRef s of
        None \<Rightarrow> s
      | Some k \<Rightarrow> s\<lparr> socketRef := Some (k\<lparr> socket_id := Some sid \<rparr>), mySocketId := Some sid \<rparr>)"

text \<open>\<open>playerList\<close>: \<open>setGameState((prev) => ({ ...prev, players }))\<close>.\<close>

definition on_playerList :: "Player list \<Rightarrow> Client \<Rightarrow> Client" where
  "on_playerList ps s = s\<lparr> gameState := (gameState s)\<lparr> players := ps \<rparr> \<rparr>"

text \<open>\<open>gameStarted\<close>, with \<open>data.currentTurn\<close>, \<open>data.currentPlayerName\<close>, \<open>data.numbers\<close>.\<close>

definition on_gameStarted :: "js_string \<Rightarrow> js_string \<Rightarrow> int list \<Rightarrow> Client \<Rightarrow> Client" where
  "on_gameStarted turn turnName nums s =
     s\<lparr> gameState := (gameState s)\<lparr> gameStarted := True, currentTurn := Some turn,
          currentPlayerName := Some turnName, numbers := nums \<rparr> \<rparr>"

text \<open>
  \<open>numberEliminated\<close>, with \<open>data.remainingNumbers\<close>, \<open>data.currentTurn\<close>,
  \<open>data.currentPlayerName\<close> (\<open>data.number\<close> is not read).
\<close>

definition on_numberEliminated :: "int list \<Rightarrow> js_string \<Rightarrow> js_string \<Rightarrow> Client \<Rightarrow> Client" where
  "on_numberEliminated remaining turn turnName s =
     s\<lparr> gameState := (gameState s)\<lparr> numbers := remaining, currentTurn := Some turn,
          currentPlayerName := Some turnName \<rparr> \<rparr>"

text \<open>
  \<open>error\<close>: returns at once while \<open>justPickedNumber.current\<close> is set; otherwise shows the
  message, cancels the timer \<open>errorTimeout.current\<close> refers to, if any, and arms a new one
  that clears the message after 3000 ms, keeping its id in \<open>errorTimeout.current\<close>.
  (Timer ids are positive, so a non-null id is truthy.)
\<close>

definition on_error :: "js_string \<Rightarrow> Client \<Rightarrow> Client" where
  "on_error message s =
     (if justPickedNumber s then s
      else
        let s1 = s\<lparr> errorMsg := Some message \<rparr>;
            s2 = (case errorTimeout s1 of None \<Rightarrow> s1 | Some h \<Rightarrow> clearTimeout h s1)
        in (setTimeout ClearError 3000 s2)\<lparr> errorTimeout := Some (nextTimerId s2) \<rparr>)"

text \<open>
  \<open>youWon\<close> and \<open>youLost\<close> have the same body: a banner for the local player (under the
  name of the first render, the empty string) and a timer that clears the banner after
  3000 ms. \<open>playerEliminated\<close> shows the banner it received, with the same timer.
  None of the three cancels a timer.
\<close>

definition on_youWon :: "int \<Rightarrow> int \<Rightarrow> int \<Rightarrow> Client \<Rightarrow> Client" where
  "on_youWon place tot num s =
     setTimeout ClearEliminationInfo 3000
       (s\<lparr> eliminationInfo := Some \<lparr> el_playerName = [], el_number = num,
                                     el_placement = place, el_totalPlayers = tot \<rparr> \<rparr>)"

definition on_youLost :: "int \<Rightarrow> int \<Rightarrow> int \<Rightarrow> Client \<Rightarrow> Client" where
  "on_youLost place tot num s =
     setTimeout ClearEliminationInfo 3000
       (s\<lparr> eliminationInfo := Some \<lparr> el_playerName = [], el_number = num,
                                     el_placement = place, el_totalPlayers = tot \<rparr> \<rparr>)"

definition on_playerEliminated :: "PlayerElimination \<Rightarrow> Client \<Rightarrow> Client" where
  "on_playerEliminated info s =
     setTimeout ClearEliminationInfo 3000 (s\<lparr> eliminationInfo := Some info \<rparr>)"

text \<open>\<open>gameOver\<close>: \<open>setGameOver(true); setGameOverInfo(info)\<close>.\<close>

definition on_gameOver :: "Placement list \<Rightarrow> Client \<Rightarrow> Client" where
  "on_gameOver info s = s\<lparr> isGameOver := True, gameOverInfo := Some info \<rparr>"

text \<open>
  \<open>lobbyCreated\<close>: records the code and the step \<open>creating\<close>, then joins the lobby under
  the stored name when the trimmed name has two code units or more and the socket
  reference is set.
\<close>

definition on_lobbyCreated :: "js_string \<Rightarrow> Client \<Rightarrow> Client" where
  "on_lobbyCreated code s =
     (let s1 = s\<lparr> lobbyCode := Some code, lobbyStep := Creating \<rparr>
      in if length (trim (playerName s1)) \<ge> 2 \<and> socketRef s1 \<noteq> None
         then (emit (JoinLobby code (playerName s1)) s1)\<lparr> showStartScreen := False \<rparr>
         else s1)"

text \<open>\<open>lobbyJoined\<close>, with \<open>data.boardSize\<close>.\<close>

definition on_lobbyJoined :: "int \<Rightarrow> Client \<Rightarrow> Client" where
  "on_lobbyJoined bsize s =
     s\<lparr> gameState := (gameState s)\<lparr> status := Some (js_str ''waiting''), boardSize := bsize,
          numbers := arrayFromLength bsize \<rparr>,
        showStartScreen := False \<rparr>"

text \<open>\<open>resetNumbers\<close>: only shows a message; no timer clears it.\<close>

definition on_resetNumbers :: "Client \<Rightarrow> Client" where
  "on_resetNumbers s =
     s\<lparr> errorMsg := Some (js_str ''All players have chosen the same number. Pick a new number.'') \<rparr>"

text \<open>\<open>lobbyReset\<close>, with \<open>data.players\<close>, \<open>data.numbers\<close>, \<open>data.boardSize\<close>.\<close>

definition on_lobbyReset :: "Player list \<Rightarrow> int list \<Rightarrow> int \<Rightarrow> Client \<Rightarrow> Client" where
  "on_lobbyReset ps nums bsize s =
     s\<lparr> isGameOver := False, gameResult := None, gameOverInfo := None,
        gameState := (gameState s)\<lparr> players := ps, numbers := nums, currentTurn := None,
          currentPlayerName := None, gameStarted := False, boardSize := bsize \<rparr>,
        showStartScreen := False \<rparr>"

subsection \<open>Self-identification\<close>

text \<open>
  \<open>gameState.players.find(p => p.id === mySocketId)\<close>, as \<open>handleNumberSelect\<close> and the
  lobby view compute it. A null \<open>mySocketId\<close> equals no id.
\<close>

definition findMe :: "Client \<Rightarrow> Player option" where
  "findMe s = find (\<lambda>p. Some (id_player p) = mySocketId s) (players (gameState s))"

text \<open>
  \<open>socketRef.current?.id === gameState.currentTurn\<close>: an undefined id (no socket, or not
  connected) is not strictly equal to anything \<open>currentTurn\<close> can hold, null included.
\<close>

definition isMyTurn :: "Client \<Rightarrow> bool" where
  "isMyTurn s = (case socketId s of None \<Rightarrow> False | Some i \<Rightarrow> currentTurn (gameState s) = Some i)"

text \<open>\<open>gameState.players[0]?.id === mySocketId\<close>: false on an empty roster.\<close>

definition isLeader :: "Client \<Rightarrow> bool" where
  "isLeader s =
     (case players (gameState s) of [] \<Rightarrow> False | p # _ \<Rightarrow> Some (id_player p) = mySocketId s)"

text \<open>\<open>gameState.players.every((p) => p.selectedNumber !== null)\<close>.\<close>

definition everySelected :: "Client \<Rightarrow> bool" where
  "everySelected s = list_all (\<lambda>p. selectedNumber p \<noteq> None) (players (gameState s))"

subsection \<open>Click handlers\<close>

text \<open>
  \<open>handleNumberSelect\<close>: nothing after game over; otherwise the error is cleared, the
  flag \<open>justPickedNumber.current\<close> is set and a timer that resets it after 500 ms is armed
  (no earlier timer is cancelled); then the message is emitted if the roster has the
  local player, found by id, with a null \<open>selectedNumber\<close>.
\<close>

definition handleNumberSelect :: "int \<Rightarrow> Client \<Rightarrow> Client" where
  "handleNumberSelect n s =
     (if isGameOver s then s
      else
        let s1 = s\<lparr> errorMsg := None \<rparr>;
            s2 = s1\<lparr> justPickedNumber := True \<rparr>;
            s3 = setTimeout ClearJustPicked 500 s2
        in case findMe s of
             None \<Rightarrow> s3
           | Some me \<Rightarrow> if selectedNumber me = None then emit (SelectNumber n) s3 else s3)"

definition handleNumberElimination :: "int \<Rightarrow> Client \<Rightarrow> Client" where
  "handleNumberElimination n s =
     (if gameStarted (gameState s) \<and> isMyTurn s then emit (EliminateNumber n) s else s)"

definition handlePlayAgain :: "Client \<Rightarrow> Client" where
  "handlePlayAgain s = emit PlayerReadyForReplay s"

definition handleMainMenu :: "Client \<Rightarrow> Client" where
  "handleMainMenu s =
     (emit LeaveLobby s)\<lparr> isGameOver := False, gameResult := None, gameOverInfo := None,
        playerName := [], gameState := defaultGameState, showStartScreen := True,
        lobbyCode := None, joinCodeInput := [], lobbyStep := Menu \<rparr>"

subsection \<open>What is rendered, and the clicks it allows\<close>

text \<open>
  The component returns one of seven views, tested in this order: the four steps of the
  start screen (the step \<open>joining\<close> has no view and falls through), the game-over view,
  the lobby view while the game has not started, the board otherwise.
\<close>

datatype View =
  MenuView | CreateView | JoinView | CreatingView | GameOverView | LobbyView | BoardView

definition view :: "Client \<Rightarrow> View" where
  "view s =
     (if showStartScreen s \<and> lobbyStep s = Menu then MenuView
      else if showStartScreen s \<and> lobbyStep s = Create then CreateView
      else if showStartScreen s \<and> lobbyStep s = Join then JoinView
      else if showStartScreen s \<and> lobbyStep s = Creating then CreatingView
      else if isGameOver s then GameOverView
      else if \<not> gameStarted (gameState s) then LobbyView
      else BoardView)"

text \<open>
  The Start Game button: in the lobby view, when the roster has more than one player and
  its first player has the local id. It is disabled unless every player has a number, and
  its \<open>onClick\<close> tests that again before it emits.
\<close>

definition startButtonShown :: "Client \<Rightarrow> bool" where
  "startButtonShown s \<longleftrightarrow>
     view s = LobbyView \<and> length (players (gameState s)) > 1 \<and> isLeader s"

definition click_startGame :: "Client \<Rightarrow> Client" where
  "click_startGame s =
     (if startButtonShown s \<and> everySelected s
      then (if everySelected s then emit StartGame s else s)
      else s)"

text \<open>
  The number buttons of the lobby view, one per entry of \<open>gameState.numbers\<close>: rendered
  when \<open>me && me.selectedNumber === null\<close>; each calls \<open>handleNumberSelect\<close> with its number.
\<close>

definition numberPickerShown :: "Client \<Rightarrow> bool" where
  "numberPickerShown s \<longleftrightarrow>
     view s = LobbyView \<and>
     (case findMe s of None \<Rightarrow> False | Some me \<Rightarrow> selectedNumber me = None)"

definition click_selectNumber :: "int \<Rightarrow> Client \<Rightarrow> Client" where
  "click_selectNumber n s =
     (if numberPickerShown s \<and> n \<in> set (numbers (gameState s))
      then handleNumberSelect n s else s)"

text \<open>
  The number buttons of the board, one per entry of \<open>gameState.numbers\<close>: disabled when
  \<open>socketRef.current?.id !== gameState.currentTurn\<close>; each calls
  \<open>handleNumberElimination\<close> with its number.
\<close>

definition click_eliminateNumber :: "int \<Rightarrow> Client \<Rightarrow> Client" where
  "click_eliminateNumber n s =
     (if view s = BoardView \<and> n \<in> set (numbers (gameState s)) \<and> isMyTurn s
      then handleNumberElimination n s else s)"

subsection \<open>Example data\<close>

text \<open>
  Three players for the concrete runs below: \<open>alice\<close> and \<open>bob\<close> have not picked a number,
  \<open>alice_twin\<close> has bob's connection id and alice's display name.
\<close>

definition alice :: Player where
  "alice = \<lparr> name = js_str ''Alice'', selectedNumber = None, isEliminated = False,
             placement = None, id_player = js_str ''sock-a'' \<rparr>"

definition bob :: Player where
  "bob = \<lparr> name = js_str ''Bob'', selectedNumber = None, isEliminated = False,
           placement = None, id_player = js_str ''sock-b'' \<rparr>"

definition alice_twin :: Player where
  "alice_twin = bob\<lparr> name := js_str ''Alice'' \<rparr>"

text \<open>
  The local client is alice's: connected as \<open>sock-a\<close>, joined to a lobby of board size 10,
  with the given roster.
\<close>

definition inLobby :: "Player list \<Rightarrow> Client" where
  "inLobby ps = on_playerList ps (on_lobbyJoined 10 (on_connect (js_str ''sock-a'') mounted))"

text \<open>Two elimination banners.\<close>

definition bannerA :: PlayerElimination where
  "bannerA = \<lparr> el_playerName = js_str ''Alice'', el_number = 7, el_placement = 1,
               el_totalPlayers = 3 \<rparr>"

definition bannerB :: PlayerElimination where
  "bannerB = \<lparr> el_playerName = js_str ''Bob'', el_number = 3, el_placement = 2,
               el_totalPlayers = 3 \<rparr>"

subsection \<open>States that differ only in display names\<close>

text \<open>
  \<open>eraseNames\<close> blanks every display name the component holds: the name typed locally,
  the name of each player of the roster and the name of the turn holder. Two states
  with the same image differ in display names only.
\<close>

definition eraseNames :: "Client \<Rightarrow> Client" where
  "eraseNames s =
     s\<lparr> playerName := [],
        gameState := (gameState s)\<lparr> players := map (\<lambda>p. p\<lparr> name := [] \<rparr>) (players (gameState s)),
                                    currentPlayerName := None \<rparr> \<rparr>"

section \<open>Basic facts\<close>

text \<open>The definitions a concrete run unfolds.\<close>

lemmas run_defs =
  inLobby_def on_gameStarted_def on_playerList_def on_lobbyJoined_def on_connect_def
  mounted_def defaultGameState_def socketId_def outbox_def js_str_def alice_def bob_def

lemmas handler_defs =
  handleNumberSelect_def findMe_def setTimeout_def emit_def view_def Let_def

lemmas timer_defs = elapse_def on_error_def setTimeout_def clearTimeout_def
  handleNumberSelect_def findMe_def emit_def Let_def

lemma outbox_emit: "socketRef s \<noteq> None \<Longrightarrow> outbox (emit m s) = outbox s @ [m]"
  by (auto simp: outbox_def emit_def)

lemma outbox_emit_neq: "outbox (emit m s) \<noteq> outbox s \<Longrightarrow> socketRef s \<noteq> None"
  by (cases "socketRef s") (auto simp: emit_def)

lemma outbox_setTimeout [simp]: "outbox (setTimeout cb d s) = outbox s"
  by (simp add: outbox_def setTimeout_def)

lemma timers_emit [simp]: "timers (emit m s) = timers s"
  by (simp add: emit_def split: option.splits)

lemma now_emit [simp]: "now (emit m s) = now s"
  by (simp add: emit_def split: option.splits)

lemma justPicked_emit [simp]: "justPickedNumber (emit m s) = justPickedNumber s"
  by (simp add: emit_def split: option.splits)

lemma errorMsg_emit [simp]: "errorMsg (emit m s) = errorMsg s"
  by (simp add: emit_def split: option.splits)

lemma isMyTurn_iff:
  "isMyTurn s \<longleftrightarrow> (\<exists>i. socketId s = Some i \<and> currentTurn (gameState s) = Some i)"
  by (simp add: isMyTurn_def split: option.splits)

lemma isMyTurn_socket: "isMyTurn s \<Longrightarrow> socketRef s \<noteq> None"
  by (auto simp: isMyTurn_def socketId_def split: option.splits)

lemma everySelected_iff:
  "everySelected s \<longleftrightarrow> (\<forall>p \<in> set (players (gameState s)). selectedNumber p \<noteq> None)"
  by (simp add: everySelected_def list_all_iff)

lemma isLeader_iff:
  "isLeader s \<longleftrightarrow> (\<exists>p ps. players (gameState s) = p # ps \<and> mySocketId s = Some (id_player p))"
  by (auto simp: isLeader_def split: list.splits)

lemma isLeader_findMe:
  "players (gameState s) = p # ps \<Longrightarrow> mySocketId s = Some (id_player p) \<Longrightarrow> findMe s = Some p"
  by (simp add: findMe_def)

lemma findMe_handleNumberSelect [simp]: "findMe (handleNumberSelect n s) = findMe s"
  by (auto simp: handleNumberSelect_def findMe_def setTimeout_def emit_def Let_def
      split: option.splits)

lemma outbox_handleNumberSelect:
  "outbox (handleNumberSelect n s) =
     (if \<not> isGameOver s \<and> (\<exists>me. findMe s = Some me \<and> selectedNumber me = None)
      then outbox (emit (SelectNumber n) s) else outbox s)"
  by (auto simp: handleNumberSelect_def Let_def outbox_def emit_def setTimeout_def
      split: option.splits)

section \<open>Roster updates\<close>

lemma on_playerList_twice: "on_playerList ps (on_playerList qs s) = on_playerList ps s"
  by (simp add: on_playerList_def)

lemma on_playerList_foldl:
  "foldl (\<lambda>a ps. on_playerList ps a) s (pss @ [ps]) = on_playerList ps s"
  by (induction pss arbitrary: s rule: rev_induct) (simp_all add: on_playerList_twice)

text \<open>
  Claim C4. Apply any sequence \<open>pss\<close> of \<open>playerList\<close> payloads to any state \<open>s\<close>. After
  the event of index \<open>k\<close> the roster is exactly the payload \<open>pss ! k\<close>, whatever the earlier
  payloads were, and nothing else has changed: \<open>numbers\<close>, \<open>currentTurn\<close>,
  \<open>currentPlayerName\<close>, \<open>gameStarted\<close> and \<open>boardSize\<close> are those of \<open>s\<close>, and so is every
  other cell of the component (the state is \<open>s\<close> with the roster replaced).
\<close>

theorem playerList_replaces_roster:
  fixes s :: Client
  assumes "k < length pss"
  shows "players (gameState (foldl (\<lambda>a ps. on_playerList ps a) s (take (Suc k) pss))) = pss ! k \<and>
     numbers (gameState (foldl (\<lambda>a ps. on_playerList ps a) s (take (Suc k) pss))) = numbers (gameState s) \<and>
     currentTurn (gameState (foldl (\<lambda>a ps. on_playerList ps a) s (take (Suc k) pss))) = currentTurn (gameState s) \<and>
     currentPlayerName (gameState (foldl (\<lambda>a ps. on_playerList ps a) s (take (Suc k) pss))) = currentPlayerName (gameState s) \<and>
     gameStarted (gameState (foldl (\<lambda>a ps. on_playerList ps a) s (take (Suc k) pss))) = gameStarted (gameState s) \<and>
     boardSize (gameState (foldl (\<lambda>a ps. on_playerList ps a) s (take (Suc k) pss))) = boardSize (gameState s) \<and>
     foldl (\<lambda>a ps. on_playerList ps a) s (take (Suc k) pss) =
       s\<lparr> gameState := (gameState s)\<lparr> players := pss ! k \<rparr> \<rparr>"
proof -
  have "take (Suc k) pss = take k pss @ [pss ! k]"
    using assms by (simp add: take_Suc_conv_app_nth)
  then have "foldl (\<lambda>a ps. on_playerList ps a) s (take (Suc k) pss) = on_playerList (pss ! k) s"
    by (simp only: on_playerList_foldl)
  then show ?thesis
    by (simp add: on_playerList_def)
qed

theorem playerList_replaces_roster_witness:
  "(1::nat) < length [[alice, bob], [bob]] \<and>
   players (gameState (foldl (\<lambda>a ps. on_playerList ps a) mounted [[alice, bob], [bob]])) = [bob] \<and>
   numbers (gameState (foldl (\<lambda>a ps. on_playerList ps a) mounted [[alice, bob], [bob]])) =
     numbers (gameState mounted)"
  using playerList_replaces_roster [of 1 "[[alice, bob], [bob]]" mounted] by simp

section \<open>Joining a lobby\<close>

lemma arrayFromLength_nat: "arrayFromLength (int n) = [1..int n]"
proof (induction n)
  case 0
  show ?case by (simp add: arrayFromLength_def)
next
  case (Suc n)
  have "[1..int (Suc n)] = [1..int n] @ [int n + 1]"
    using upto_rec2 [of 1 "int (Suc n)"] by (simp add: add.commute)
  moreover have "arrayFromLength (int (Suc n)) = arrayFromLength (int n) @ [int n + 1]"
    unfolding arrayFromLength_def nat_int by simp
  ultimately show ?case using Suc by simp
qed

lemma arrayFromLength_upto: "arrayFromLength b = [1..b]"
proof (cases "0 \<le> b")
  case True
  then show ?thesis using arrayFromLength_nat [of "nat b"] by simp
next
  case False
  then show ?thesis by (simp add: arrayFromLength_def)
qed

text \<open>
  Claim C8. On \<open>lobbyJoined\<close> with board size \<open>b\<close> the snapshot's \<open>boardSize\<close> becomes \<open>b\<close>
  and its \<open>numbers\<close> become the integers from 1 to \<open>b\<close> in increasing order, computed by
  the client and independent of the pool it held before.
\<close>

theorem lobbyJoined_sets_board:
  "boardSize (gameState (on_lobbyJoined b s)) = b \<and>
   numbers (gameState (on_lobbyJoined b s)) = [1..b]"
  by (simp add: on_lobbyJoined_def arrayFromLength_upto)

text \<open>
  Claim C10. On \<open>lobbyCreated\<close> the code is recorded and the step becomes \<open>creating\<close> in
  every case. A \<open>joinLobby\<close> with the received code and the stored (untrimmed) name is
  emitted only if the trimmed name has at least two code units, and it is emitted (and
  the start screen left) whenever that holds and the socket exists. With a shorter
  trimmed name nothing is emitted and \<open>showStartScreen\<close> keeps its value: a client that
  was on the start screen shows the view of the step \<open>creating\<close>.
\<close>

theorem lobbyCreated_autojoin:
  "lobbyCode (on_lobbyCreated code s) = Some code \<and>
   lobbyStep (on_lobbyCreated code s) = Creating \<and>
   (outbox (on_lobbyCreated code s) \<noteq> outbox s \<longrightarrow>
      2 \<le> length (trim (playerName s)) \<and>
      outbox (on_lobbyCreated code s) = outbox s @ [JoinLobby code (playerName s)]) \<and>
   (2 \<le> length (trim (playerName s)) \<and> socketRef s \<noteq> None \<longrightarrow>
      outbox (on_lobbyCreated code s) = outbox s @ [JoinLobby code (playerName s)] \<and>
      \<not> showStartScreen (on_lobbyCreated code s)) \<and>
   (length (trim (playerName s)) < 2 \<longrightarrow>
      outbox (on_lobbyCreated code s) = outbox s \<and>
      showStartScreen (on_lobbyCreated code s) = showStartScreen s \<and>
      (showStartScreen s \<longrightarrow> view (on_lobbyCreated code s) = CreatingView))"
  by (auto simp: on_lobbyCreated_def Let_def outbox_def emit_def view_def split: option.splits)

theorem lobbyCreated_autojoin_witness:
  "outbox (on_lobbyCreated (js_str ''AB12C'') (mounted\<lparr> playerName := js_str '' Al '', lobbyStep := Creating \<rparr>))
     = [JoinLobby (js_str ''AB12C'') (js_str '' Al '')] \<and>
   outbox (on_lobbyCreated (js_str ''AB12C'') (mounted\<lparr> playerName := js_str '' A '', lobbyStep := Creating \<rparr>)) = [] \<and>
   view (on_lobbyCreated (js_str ''AB12C'') (mounted\<lparr> playerName := js_str '' A '', lobbyStep := Creating \<rparr>)) = CreatingView \<and>
   lobbyCode (on_lobbyCreated (js_str ''AB12C'') (mounted\<lparr> playerName := js_str '' A '', lobbyStep := Creating \<rparr>)) = Some (js_str ''AB12C'')"
proof -
  let ?long = "mounted\<lparr> playerName := js_str '' Al '', lobbyStep := Creating \<rparr>"
  let ?short = "mounted\<lparr> playerName := js_str '' A '', lobbyStep := Creating \<rparr>"
  have "2 \<le> length (trim (playerName ?long)) \<and> socketRef ?long \<noteq> None"
    by (simp add: trim_def isWhiteSpace_def run_defs)
  then have "outbox (on_lobbyCreated (js_str ''AB12C'') ?long) =
      outbox ?long @ [JoinLobby (js_str ''AB12C'') (playerName ?long)]"
    using lobbyCreated_autojoin [of "js_str ''AB12C''" ?long] by blast
  then have 1: "outbox (on_lobbyCreated (js_str ''AB12C'') ?long) =
      [JoinLobby (js_str ''AB12C'') (js_str '' Al '')]"
    by (simp add: run_defs)
  have "length (trim (playerName ?short)) < 2" and s: "showStartScreen ?short"
    by (simp_all add: trim_def isWhiteSpace_def run_defs)
  then have "outbox (on_lobbyCreated (js_str ''AB12C'') ?short) = outbox ?short \<and>
      view (on_lobbyCreated (js_str ''AB12C'') ?short) = CreatingView"
    using lobbyCreated_autojoin [of "js_str ''AB12C''" ?short] by blast
  then have 2: "outbox (on_lobbyCreated (js_str ''AB12C'') ?short) = [] \<and>
      view (on_lobbyCreated (js_str ''AB12C'') ?short) = CreatingView"
    by (simp add: run_defs)
  have 3: "lobbyCode (on_lobbyCreated (js_str ''AB12C'') ?short) = Some (js_str ''AB12C'')"
    using lobbyCreated_autojoin [of "js_str ''AB12C''" ?short] by blast
  from 1 2 3 show ?thesis by blast
qed

section \<open>User intents and their guards\<close>

text \<open>
  Claim C6. In every state, \<open>handleNumberElimination\<close> emits \<open>eliminateNumber\<close> (exactly
  one message, with the number given) if and only if the game has started and the
  socket has an id that is the current turn holder's; in every other state it returns
  the state unchanged. The identity it reads is the live \<open>socketRef.current?.id\<close>: an
  absent id is never the turn holder's, not even when \<open>currentTurn\<close> is null.
\<close>

theorem eliminateNumber_emits_iff:
  "(outbox (handleNumberElimination n s) = outbox s @ [EliminateNumber n]) =
     (gameStarted (gameState s) \<and>
      (\<exists>i. socketId s = Some i \<and> currentTurn (gameState s) = Some i)) \<and>
   (\<not> (gameStarted (gameState s) \<and>
       (\<exists>i. socketId s = Some i \<and> currentTurn (gameState s) = Some i))
    \<longrightarrow> handleNumberElimination n s = s)"
  unfolding isMyTurn_iff [symmetric]
  by (auto simp: handleNumberElimination_def outbox_emit isMyTurn_socket)

theorem eliminateNumber_emits_iff_witness:
  "outbox (handleNumberElimination 4
      (on_gameStarted (js_str ''sock-a'') (js_str ''Alice'') [1, 2, 3, 4] (inLobby [alice, bob])))
     = outbox (on_gameStarted (js_str ''sock-a'') (js_str ''Alice'') [1, 2, 3, 4] (inLobby [alice, bob]))
         @ [EliminateNumber 4] \<and>
   handleNumberElimination 4
      (on_gameStarted (js_str ''sock-b'') (js_str ''Bob'') [1, 2, 3, 4] (inLobby [alice, bob]))
     = on_gameStarted (js_str ''sock-b'') (js_str ''Bob'') [1, 2, 3, 4] (inLobby [alice, bob]) \<and>
   handleNumberElimination 4 (inLobby [alice, bob]) = inLobby [alice, bob]"
proof -
  let ?mine = "on_gameStarted (js_str ''sock-a'') (js_str ''Alice'') [1, 2, 3, 4] (inLobby [alice, bob])"
  let ?bobs = "on_gameStarted (js_str ''sock-b'') (js_str ''Bob'') [1, 2, 3, 4] (inLobby [alice, bob])"
  have "gameStarted (gameState ?mine) \<and>
        (\<exists>i. socketId ?mine = Some i \<and> currentTurn (gameState ?mine) = Some i)"
    by (simp add: run_defs)
  then have 1: "outbox (handleNumberElimination 4 ?mine) = outbox ?mine @ [EliminateNumber 4]"
    using eliminateNumber_emits_iff [of 4 ?mine] by blast
  have "\<not> (\<exists>i. socketId ?bobs = Some i \<and> currentTurn (gameState ?bobs) = Some i)"
    by (simp add: run_defs)
  then have 2: "handleNumberElimination 4 ?bobs = ?bobs"
    using eliminateNumber_emits_iff [of 4 ?bobs] by blast
  have "\<not> gameStarted (gameState (inLobby [alice, bob]))"
    by (simp add: run_defs)
  then have 3: "handleNumberElimination 4 (inLobby [alice, bob]) = inLobby [alice, bob]"
    using eliminateNumber_emits_iff [of 4 "inLobby [alice, bob]"] by blast
  from 1 2 3 show ?thesis by blast
qed

text \<open>
  Claim C7. A click on Start Game emits \<open>startGame\<close> only when the first player of the
  roster has the local id (so the local participant, as \<open>find\<close> locates it, is the one at
  index 0) and every player of the roster has a number; what is emitted is that one
  message. In any state where the local client is not the leader or some player has no
  number, the click changes nothing, and for a non-leader the button is not rendered.
\<close>

theorem startGame_only_leader_all_selected:
  "(outbox (click_startGame s) \<noteq> outbox s \<longrightarrow>
      (\<exists>p ps. players (gameState s) = p # ps \<and> mySocketId s = Some (id_player p) \<and>
               findMe s = Some p) \<and>
      (\<forall>p \<in> set (players (gameState s)). selectedNumber p \<noteq> None) \<and>
      outbox (click_startGame s) = outbox s @ [StartGame]) \<and>
   (\<not> ((\<exists>p ps. players (gameState s) = p # ps \<and> mySocketId s = Some (id_player p)) \<and>
        (\<forall>p \<in> set (players (gameState s)). selectedNumber p \<noteq> None))
      \<longrightarrow> click_startGame s = s) \<and>
   (\<not> (\<exists>p ps. players (gameState s) = p # ps \<and> mySocketId s = Some (id_player p))
      \<longrightarrow> \<not> startButtonShown s)"
proof (intro conjI impI)
  assume a: "outbox (click_startGame s) \<noteq> outbox s"
  then have g: "startButtonShown s" "everySelected s" and e: "click_startGame s = emit StartGame s"
    by (auto simp: click_startGame_def split: if_splits)
  from g(1) obtain p ps where p: "players (gameState s) = p # ps" "mySocketId s = Some (id_player p)"
    by (auto simp: startButtonShown_def isLeader_iff)
  then show "\<exists>p ps. players (gameState s) = p # ps \<and> mySocketId s = Some (id_player p) \<and>
               findMe s = Some p"
    using isLeader_findMe by blast
  show "\<forall>p \<in> set (players (gameState s)). selectedNumber p \<noteq> None"
    using g(2) by (simp add: everySelected_iff)
  from a e have "socketRef s \<noteq> None" using outbox_emit_neq by metis
  then show "outbox (click_startGame s) = outbox s @ [StartGame]"
    using e by (simp add: outbox_emit)
next
  assume "\<not> ((\<exists>p ps. players (gameState s) = p # ps \<and> mySocketId s = Some (id_player p)) \<and>
        (\<forall>p \<in> set (players (gameState s)). selectedNumber p \<noteq> None))"
  then have "\<not> (isLeader s \<and> everySelected s)"
    by (simp add: isLeader_iff everySelected_iff)
  then show "click_startGame s = s"
    by (auto simp: click_startGame_def startButtonShown_def)
next
  assume "\<not> (\<exists>p ps. players (gameState s) = p # ps \<and> mySocketId s = Some (id_player p))"
  then show "\<not> startButtonShown s"
    by (simp only: startButtonShown_def isLeader_iff) blast
qed

theorem startGame_only_leader_all_selected_witness:
  "outbox (click_startGame (inLobby [alice\<lparr> selectedNumber := Some 3 \<rparr>, bob\<lparr> selectedNumber := Some 5 \<rparr>])) = [StartGame] \<and>
   click_startGame (inLobby [alice\<lparr> selectedNumber := Some 3 \<rparr>, bob]) =
     inLobby [alice\<lparr> selectedNumber := Some 3 \<rparr>, bob] \<and>
   \<not> startButtonShown (inLobby [bob\<lparr> selectedNumber := Some 5 \<rparr>, alice\<lparr> selectedNumber := Some 3 \<rparr>])"
proof -
  let ?ready = "inLobby [alice\<lparr> selectedNumber := Some 3 \<rparr>, bob\<lparr> selectedNumber := Some 5 \<rparr>]"
  let ?waiting = "inLobby [alice\<lparr> selectedNumber := Some 3 \<rparr>, bob]"
  let ?second = "inLobby [bob\<lparr> selectedNumber := Some 5 \<rparr>, alice\<lparr> selectedNumber := Some 3 \<rparr>]"
  have "outbox (click_startGame ?ready) \<noteq> outbox ?ready"
    by (simp add: click_startGame_def startButtonShown_def isLeader_def everySelected_def
        handler_defs run_defs)
  then have "outbox (click_startGame ?ready) = outbox ?ready @ [StartGame]"
    using startGame_only_leader_all_selected [of ?ready] by blast
  then have 1: "outbox (click_startGame ?ready) = [StartGame]"
    by (simp add: run_defs)
  have "\<not> (\<forall>p \<in> set (players (gameState ?waiting)). selectedNumber p \<noteq> None)"
    by (simp add: run_defs)
  then have 2: "click_startGame ?waiting = ?waiting"
    using startGame_only_leader_all_selected [of ?waiting] by blast
  have "\<not> (\<exists>p ps. players (gameState ?second) = p # ps \<and> mySocketId ?second = Some (id_player p))"
    by (simp add: run_defs)
  then have 3: "\<not> startButtonShown ?second"
    using startGame_only_leader_all_selected [of ?second] by blast
  from 1 2 3 show ?thesis by blast
qed

text \<open>
  Claim C2. \<open>handleNumberSelect\<close> has one call site, the number buttons of the lobby view,
  and runs with the state of the render that shows them. In every state, a click on such
  a button emits \<open>selectNumber\<close> (one message, with the number clicked) only when the
  local participant, located in the roster by id, has no recorded number and the round
  has not started; the handler itself emits only when that participant has no number
  and the game is not over. When the snapshot already shows a number for the local
  participant, a further click is a no-op, the state is unchanged, and the handler, run
  once or twice in succession, adds no outbound message.
\<close>

theorem selectNumber_guard_idempotent:
  "(outbox (click_selectNumber n s) \<noteq> outbox s \<longrightarrow>
      (\<exists>me. findMe s = Some me \<and> selectedNumber me = None) \<and>
      \<not> gameStarted (gameState s) \<and>
      outbox (click_selectNumber n s) = outbox s @ [SelectNumber n]) \<and>
   (outbox (handleNumberSelect n s) \<noteq> outbox s \<longrightarrow>
      (\<exists>me. findMe s = Some me \<and> selectedNumber me = None) \<and>
      \<not> isGameOver s \<and>
      outbox (handleNumberSelect n s) = outbox s @ [SelectNumber n]) \<and>
   ((\<exists>me k. findMe s = Some me \<and> selectedNumber me = Some k) \<longrightarrow>
      click_selectNumber n s = s \<and>
      outbox (handleNumberSelect n s) = outbox s \<and>
      outbox (handleNumberSelect m (handleNumberSelect n s)) = outbox s)"
proof (intro conjI impI)
  assume a: "outbox (click_selectNumber n s) \<noteq> outbox s"
  then have shown: "numberPickerShown s" and e: "click_selectNumber n s = handleNumberSelect n s"
    by (auto simp: click_selectNumber_def split: if_splits)
  from shown show "\<exists>me. findMe s = Some me \<and> selectedNumber me = None"
    by (auto simp: numberPickerShown_def split: option.splits)
  from shown show "\<not> gameStarted (gameState s)"
    by (auto simp: numberPickerShown_def view_def split: if_splits)
  from a e have "outbox (emit (SelectNumber n) s) \<noteq> outbox s"
    by (auto simp: outbox_handleNumberSelect split: if_splits)
  then have "socketRef s \<noteq> None" by (rule outbox_emit_neq)
  with a e show "outbox (click_selectNumber n s) = outbox s @ [SelectNumber n]"
    by (auto simp: outbox_handleNumberSelect outbox_emit split: if_splits)
next
  assume a: "outbox (handleNumberSelect n s) \<noteq> outbox s"
  then show "\<exists>me. findMe s = Some me \<and> selectedNumber me = None"
    by (auto simp: outbox_handleNumberSelect split: if_splits)
  from a show "\<not> isGameOver s"
    by (auto simp: outbox_handleNumberSelect split: if_splits)
  from a have "outbox (emit (SelectNumber n) s) \<noteq> outbox s"
    by (auto simp: outbox_handleNumberSelect split: if_splits)
  then have "socketRef s \<noteq> None" by (rule outbox_emit_neq)
  with a show "outbox (handleNumberSelect n s) = outbox s @ [SelectNumber n]"
    by (auto simp: outbox_handleNumberSelect outbox_emit split: if_splits)
next
  assume a: "\<exists>me k. findMe s = Some me \<and> selectedNumber me = Some k"
  then show "click_selectNumber n s = s"
    by (auto simp: click_selectNumber_def numberPickerShown_def)
  from a show 1: "outbox (handleNumberSelect n s) = outbox s"
    by (auto simp: outbox_handleNumberSelect)
  from a have "\<exists>me k. findMe (handleNumberSelect n s) = Some me \<and> selectedNumber me = Some k"
    by simp
  then have "outbox (handleNumberSelect m (handleNumberSelect n s)) = outbox (handleNumberSelect n s)"
    by (auto simp: outbox_handleNumberSelect)
  with 1 show "outbox (handleNumberSelect m (handleNumberSelect n s)) = outbox s"
    by simp
qed

theorem selectNumber_guard_idempotent_witness:
  "outbox (click_selectNumber 7 (inLobby [alice, bob])) = [SelectNumber 7] \<and>
   \<not> gameStarted (gameState (inLobby [alice, bob])) \<and>
   outbox (handleNumberSelect 7 (inLobby [alice, bob])) = [SelectNumber 7] \<and>
   click_selectNumber 8 (inLobby [alice\<lparr> selectedNumber := Some 7 \<rparr>, bob]) =
     inLobby [alice\<lparr> selectedNumber := Some 7 \<rparr>, bob] \<and>
   outbox (handleNumberSelect 9 (handleNumberSelect 8 (inLobby [alice\<lparr> selectedNumber := Some 7 \<rparr>, bob]))) = []"
proof -
  let ?fresh = "inLobby [alice, bob]"
  let ?picked = "inLobby [alice\<lparr> selectedNumber := Some 7 \<rparr>, bob]"
  have "outbox (click_selectNumber 7 ?fresh) \<noteq> outbox ?fresh"
    by (simp add: click_selectNumber_def numberPickerShown_def handler_defs run_defs
        arrayFromLength_upto upto.simps)
  then have "\<not> gameStarted (gameState ?fresh) \<and>
      outbox (click_selectNumber 7 ?fresh) = outbox ?fresh @ [SelectNumber 7]"
    using selectNumber_guard_idempotent [of 7 ?fresh] by blast
  then have 1: "\<not> gameStarted (gameState ?fresh) \<and> outbox (click_selectNumber 7 ?fresh) = [SelectNumber 7]"
    by (simp add: run_defs)
  have "outbox (handleNumberSelect 7 ?fresh) \<noteq> outbox ?fresh"
    by (simp add: handler_defs run_defs)
  then have "outbox (handleNumberSelect 7 ?fresh) = outbox ?fresh @ [SelectNumber 7]"
    using selectNumber_guard_idempotent [of 7 ?fresh] by blast
  then have 2: "outbox (handleNumberSelect 7 ?fresh) = [SelectNumber 7]"
    by (simp add: run_defs)
  have "\<exists>me k. findMe ?picked = Some me \<and> selectedNumber me = Some k"
    by (simp add: findMe_def run_defs)
  then have "click_selectNumber 8 ?picked = ?picked \<and>
      outbox (handleNumberSelect 9 (handleNumberSelect 8 ?picked)) = outbox ?picked"
    using selectNumber_guard_idempotent [of 8 ?picked 9] by blast
  then have 3: "click_selectNumber 8 ?picked = ?picked \<and>
      outbox (handleNumberSelect 9 (handleNumberSelect 8 ?picked)) = []"
    by (simp add: run_defs)
  from 1 2 3 show ?thesis by blast
qed

section \<open>Self-identification is by id\<close>

lemma find_id_erase:
  "find (\<lambda>p. Some (id_player p) = i) (map (\<lambda>p. p\<lparr> name := [] \<rparr>) ps) =
   map_option (\<lambda>p. p\<lparr> name := [] \<rparr>) (find (\<lambda>p. Some (id_player p) = i) ps)"
  by (induction ps) simp_all

lemma findMe_eraseNames: "findMe (eraseNames s) = map_option (\<lambda>p. p\<lparr> name := [] \<rparr>) (findMe s)"
  by (simp add: findMe_def eraseNames_def find_id_erase)

lemma isMyTurn_eraseNames: "isMyTurn (eraseNames s) = isMyTurn s"
  by (simp add: isMyTurn_def eraseNames_def socketId_def split: option.splits)

lemma isLeader_eraseNames: "isLeader (eraseNames s) = isLeader s"
  by (simp add: isLeader_def eraseNames_def split: list.splits)

lemma everySelected_eraseNames: "everySelected (eraseNames s) = everySelected s"
  by (simp add: everySelected_def eraseNames_def list_all_iff)

lemma view_eraseNames: "view (eraseNames s) = view s"
  by (simp add: view_def eraseNames_def)

lemma outbox_eraseNames: "outbox (eraseNames s) = outbox s"
  by (simp add: outbox_def eraseNames_def)

lemma outbox_emit_eraseNames: "outbox (emit m (eraseNames s)) = outbox (emit m s)"
  by (simp add: outbox_def emit_def eraseNames_def split: option.splits)

lemma handleNumberSelect_eraseNames:
  "outbox (handleNumberSelect n (eraseNames s)) = outbox (handleNumberSelect n s)"
  by (cases "findMe s")
     (simp_all add: outbox_handleNumberSelect findMe_eraseNames outbox_emit_eraseNames
        outbox_eraseNames, simp_all add: eraseNames_def)

lemma handleNumberElimination_eraseNames:
  "outbox (handleNumberElimination n (eraseNames s)) = outbox (handleNumberElimination n s)"
  by (simp add: handleNumberElimination_def isMyTurn_eraseNames outbox_emit_eraseNames
      outbox_eraseNames) (simp add: eraseNames_def)

lemma startButtonShown_eraseNames: "startButtonShown (eraseNames s) = startButtonShown s"
  by (simp add: startButtonShown_def view_eraseNames isLeader_eraseNames) (simp add: eraseNames_def)

lemma click_startGame_eraseNames:
  "outbox (click_startGame (eraseNames s)) = outbox (click_startGame s)"
  by (simp add: click_startGame_def startButtonShown_eraseNames everySelected_eraseNames
      outbox_emit_eraseNames outbox_eraseNames)

lemma numberPickerShown_eraseNames: "numberPickerShown (eraseNames s) = numberPickerShown s"
  by (cases "findMe s") (simp_all add: numberPickerShown_def view_eraseNames findMe_eraseNames)

lemma numbers_eraseNames: "numbers (gameState (eraseNames s)) = numbers (gameState s)"
  by (simp add: eraseNames_def)

lemma click_selectNumber_eraseNames:
  "outbox (click_selectNumber n (eraseNames s)) = outbox (click_selectNumber n s)"
  by (simp add: click_selectNumber_def numberPickerShown_eraseNames numbers_eraseNames
      handleNumberSelect_eraseNames outbox_eraseNames)

lemma click_eliminateNumber_eraseNames:
  "outbox (click_eliminateNumber n (eraseNames s)) = outbox (click_eliminateNumber n s)"
  by (simp add: click_eliminateNumber_def view_eraseNames numbers_eraseNames
      isMyTurn_eraseNames handleNumberElimination_eraseNames outbox_eraseNames)

text \<open>
  Claim C1. The three checks that gate an action read ids only: "is it my turn" compares
  the socket's id with \<open>currentTurn\<close>, "have I already picked" looks the local
  participant up by \<open>mySocketId\<close>, "am I the leader" compares the id of the first player
  with \<open>mySocketId\<close>. Hence two states that differ only in display names (the names in
  the roster, the name typed locally, the turn holder's name) give the same answer to
  each check, the same number and id for the local participant, and the same outbound
  messages for \<open>handleNumberElimination\<close>, \<open>handleNumberSelect\<close> and every click: on Start Game,
  on a number of the lobby view, on a number of the board.
\<close>

theorem self_identification_ignores_names:
  assumes "eraseNames s1 = eraseNames s2"
  shows "isMyTurn s1 = isMyTurn s2 \<and>
    map_option selectedNumber (findMe s1) = map_option selectedNumber (findMe s2) \<and>
    map_option id_player (findMe s1) = map_option id_player (findMe s2) \<and>
    isLeader s1 = isLeader s2 \<and>
    outbox (handleNumberElimination n s1) = outbox (handleNumberElimination n s2) \<and>
    outbox (handleNumberSelect n s1) = outbox (handleNumberSelect n s2) \<and>
    outbox (click_startGame s1) = outbox (click_startGame s2) \<and>
    outbox (click_selectNumber n s1) = outbox (click_selectNumber n s2) \<and>
    outbox (click_eliminateNumber n s1) = outbox (click_eliminateNumber n s2)"
proof -
  have "isMyTurn s1 = isMyTurn s2"
    using assms isMyTurn_eraseNames by metis
  moreover have "map_option (\<lambda>p. p\<lparr> name := [] \<rparr>) (findMe s1) = map_option (\<lambda>p. p\<lparr> name := [] \<rparr>) (findMe s2)"
    using assms findMe_eraseNames by metis
  then have "map_option selectedNumber (findMe s1) = map_option selectedNumber (findMe s2) \<and>
    map_option id_player (findMe s1) = map_option id_player (findMe s2)"
    by (cases "findMe s1"; cases "findMe s2")
       (auto dest: arg_cong [where f = selectedNumber] arg_cong [where f = id_player])
  moreover have "isLeader s1 = isLeader s2"
    using assms isLeader_eraseNames by metis
  moreover have "outbox (handleNumberElimination n s1) = outbox (handleNumberElimination n s2)"
    using assms handleNumberElimination_eraseNames by metis
  moreover have "outbox (handleNumberSelect n s1) = outbox (handleNumberSelect n s2)"
    using assms handleNumberSelect_eraseNames by metis
  moreover have "outbox (click_startGame s1) = outbox (click_startGame s2)"
    using assms click_startGame_eraseNames by metis
  moreover have "outbox (click_selectNumber n s1) = outbox (click_selectNumber n s2)"
    using assms click_selectNumber_eraseNames by metis
  moreover have "outbox (click_eliminateNumber n s1) = outbox (click_eliminateNumber n s2)"
    using assms click_eliminateNumber_eraseNames by metis
  ultimately show ?thesis by blast
qed

text \<open>
  An instance with a display name that is not unique: in the second roster both players
  are called Alice, and so is the local player.
\<close>

theorem self_identification_ignores_names_witness:
  "eraseNames (inLobby [alice, bob]) = eraseNames ((inLobby [alice, alice_twin])\<lparr> playerName := js_str ''Alice'' \<rparr>) \<and>
   isLeader (inLobby [alice, bob]) = isLeader ((inLobby [alice, alice_twin])\<lparr> playerName := js_str ''Alice'' \<rparr>) \<and>
   outbox (handleNumberSelect 7 (inLobby [alice, bob])) =
     outbox (handleNumberSelect 7 ((inLobby [alice, alice_twin])\<lparr> playerName := js_str ''Alice'' \<rparr>))"
proof -
  let ?a = "inLobby [alice, bob]"
  let ?b = "(inLobby [alice, alice_twin])\<lparr> playerName := js_str ''Alice'' \<rparr>"
  have h: "eraseNames ?a = eraseNames ?b"
    by (simp add: eraseNames_def alice_twin_def run_defs)
  from h self_identification_ignores_names [OF h, of 7] show ?thesis by blast
qed

section \<open>Timers: the suppression window and the banners\<close>

subsection \<open>What a batch of callbacks does to the flag and to the banner\<close>

lemma fire_all_justPicked:
  "\<forall>tm \<in> set tms. callback tm \<noteq> ClearJustPicked \<Longrightarrow>
   justPickedNumber (foldl (\<lambda>a tm. fire (callback tm) a) s tms) = justPickedNumber s"
proof (induction tms arbitrary: s)
  case Nil
  show ?case by simp
next
  case (Cons tm tms)
  then have "callback tm \<noteq> ClearJustPicked" by simp
  then have "justPickedNumber (fire (callback tm) s) = justPickedNumber s"
    by (cases "callback tm") simp_all
  with Cons show ?case by simp
qed

lemma fire_all_keeps_off:
  "\<not> justPickedNumber s \<Longrightarrow> \<not> justPickedNumber (foldl (\<lambda>a tm. fire (callback tm) a) s tms)"
proof (induction tms arbitrary: s)
  case Nil
  then show ?case by simp
next
  case (Cons tm tms)
  then have "\<not> justPickedNumber (fire (callback tm) s)"
    by (cases "callback tm") simp_all
  with Cons.IH show ?case by simp
qed

lemma fire_all_resets:
  "\<exists>tm \<in> set tms. callback tm = ClearJustPicked \<Longrightarrow>
   \<not> justPickedNumber (foldl (\<lambda>a tm. fire (callback tm) a) s tms)"
proof (induction tms arbitrary: s)
  case Nil
  then show ?case by simp
next
  case (Cons tm tms)
  show ?case
  proof (cases "callback tm = ClearJustPicked")
    case True
    then have "\<not> justPickedNumber (fire (callback tm) s)" by simp
    then show ?thesis using fire_all_keeps_off by simp
  next
    case False
    with Cons.prems have "\<exists>tm \<in> set tms. callback tm = ClearJustPicked" by auto
    with Cons.IH show ?thesis by simp
  qed
qed

lemma fire_all_keeps_cleared:
  "eliminationInfo s = None \<Longrightarrow> eliminationInfo (foldl (\<lambda>a tm. fire (callback tm) a) s tms) = None"
proof (induction tms arbitrary: s)
  case Nil
  then show ?case by simp
next
  case (Cons tm tms)
  then have "eliminationInfo (fire (callback tm) s) = None"
    by (cases "callback tm") simp_all
  with Cons.IH show ?case by simp
qed

lemma fire_all_clears_banner:
  "\<exists>tm \<in> set tms. callback tm = ClearEliminationInfo \<Longrightarrow>
   eliminationInfo (foldl (\<lambda>a tm. fire (callback tm) a) s tms) = None"
proof (induction tms arbitrary: s)
  case Nil
  then show ?case by simp
next
  case (Cons tm tms)
  show ?case
  proof (cases "callback tm = ClearEliminationInfo")
    case True
    then have "eliminationInfo (fire (callback tm) s) = None" by simp
    then show ?thesis using fire_all_keeps_cleared by simp
  next
    case False
    with Cons.prems have "\<exists>tm \<in> set tms. callback tm = ClearEliminationInfo" by auto
    with Cons.IH show ?thesis by simp
  qed
qed

subsection \<open>The suppression window\<close>

lemma handleNumberSelect_arms:
  assumes "\<not> isGameOver s"
  shows "errorMsg (handleNumberSelect n s) = None"
    and "justPickedNumber (handleNumberSelect n s)"
    and "timers (handleNumberSelect n s) =
           timers s @ [\<lparr> timer_id = nextTimerId s, due = now s + 500, callback = ClearJustPicked \<rparr>]"
    and "now (handleNumberSelect n s) = now s"
  using assms
  by (auto simp: handleNumberSelect_def Let_def setTimeout_def split: option.splits)

lemma justPicked_elapse:
  assumes "\<forall>tm \<in> set (timers s). callback tm = ClearJustPicked \<longrightarrow> now s + d < due tm"
  shows "justPickedNumber (elapse d s) = justPickedNumber s"
proof -
  have "\<forall>tm \<in> set (sort_key due (filter (\<lambda>tm. due tm \<le> now s + d) (timers s))).
          callback tm \<noteq> ClearJustPicked"
    using assms by auto
  then show ?thesis
    by (simp add: elapse_def Let_def fire_all_justPicked)
qed

text \<open>
  The flag is set for 500 ms after a call of \<open>handleNumberSelect\<close>, provided no timer of
  an earlier call falls due in between (the handler cancels none), and it is reset from
  500 ms on, until the next call.
\<close>

lemma suppression_window_open:
  assumes "\<not> isGameOver s" and "d < 500"
    and "\<forall>tm \<in> set (timers s). callback tm = ClearJustPicked \<longrightarrow> now s + d < due tm"
  shows "justPickedNumber (elapse d (handleNumberSelect n s))"
proof -
  have "\<forall>tm \<in> set (timers (handleNumberSelect n s)).
          callback tm = ClearJustPicked \<longrightarrow> now (handleNumberSelect n s) + d < due tm"
    using assms by (simp add: handleNumberSelect_arms)
  then show ?thesis
    using justPicked_elapse [of "handleNumberSelect n s" d] assms(1)
    by (simp add: handleNumberSelect_arms)
qed

lemma suppression_window_closed:
  assumes "\<not> isGameOver s" and "500 \<le> d"
  shows "\<not> justPickedNumber (elapse d (handleNumberSelect n s))"
proof -
  let ?s = "handleNumberSelect n s"
  let ?tm = "\<lparr> timer_id = nextTimerId s, due = now s + 500, callback = ClearJustPicked \<rparr>"
  have "?tm \<in> set (sort_key due (filter (\<lambda>tm. due tm \<le> now ?s + d) (timers ?s)))"
    using assms by (simp add: handleNumberSelect_arms)
  then have "\<exists>tm \<in> set (sort_key due (filter (\<lambda>tm. due tm \<le> now ?s + d) (timers ?s))).
      callback tm = ClearJustPicked"
    by (rule bexI [rotated]) simp
  then show ?thesis
    by (simp add: elapse_def Let_def fire_all_resets)
qed

text \<open>
  An earlier call's timer at work: numbers are picked at 0 and at 450 ms; the first
  timer resets the flag at 500 ms, so an error that arrives at 550 ms is displayed.
\<close>

lemma earlier_timer_closes_window:
  "\<not> justPickedNumber (elapse 100 (handleNumberSelect 7 (elapse 450 (handleNumberSelect 3 (inLobby [alice, bob]))))) \<and>
   errorMsg (on_error (js_str ''taken'')
      (elapse 100 (handleNumberSelect 7 (elapse 450 (handleNumberSelect 3 (inLobby [alice, bob]))))))
     = Some (js_str ''taken'')"
  by (simp add: timer_defs run_defs)

text \<open>
  Claim C9. Every call of \<open>handleNumberSelect\<close> while the game is not over leaves no error
  displayed, sets the flag \<open>justPickedNumber\<close> and adds to the pending timers one that
  resets the flag 500 ms later. This happens before and whatever the emit guard decides:
  the result is the state so prepared, with the message emitted on top exactly when the
  roster has the local participant without a number, so it happens as well when the
  participant has a number already or is absent from the roster.
\<close>

theorem handleNumberSelect_always_clears_and_arms:
  assumes "\<not> isGameOver s"
  shows "errorMsg (handleNumberSelect n s) = None \<and>
    justPickedNumber (handleNumberSelect n s) \<and>
    timers (handleNumberSelect n s) =
      timers s @ [\<lparr> timer_id = nextTimerId s, due = now s + 500, callback = ClearJustPicked \<rparr>] \<and>
    handleNumberSelect n s =
      (if \<exists>me. findMe s = Some me \<and> selectedNumber me = None
       then emit (SelectNumber n)
              (setTimeout ClearJustPicked 500 (s\<lparr> errorMsg := None, justPickedNumber := True \<rparr>))
       else setTimeout ClearJustPicked 500 (s\<lparr> errorMsg := None, justPickedNumber := True \<rparr>))"
  using assms
  by (auto simp: handleNumberSelect_arms)
     (auto simp: handleNumberSelect_def Let_def split: option.splits)

text \<open>
  An instance where nothing is emitted: the local participant is absent from the roster
  and the duplicate-pick message is on display.
\<close>

theorem handleNumberSelect_always_clears_and_arms_witness:
  "\<not> isGameOver (on_resetNumbers (inLobby [bob])) \<and>
   errorMsg (on_resetNumbers (inLobby [bob])) \<noteq> None \<and>
   findMe (on_resetNumbers (inLobby [bob])) = None \<and>
   errorMsg (handleNumberSelect 7 (on_resetNumbers (inLobby [bob]))) = None \<and>
   justPickedNumber (handleNumberSelect 7 (on_resetNumbers (inLobby [bob]))) \<and>
   timers (handleNumberSelect 7 (on_resetNumbers (inLobby [bob]))) =
     [\<lparr> timer_id = 1, due = 500, callback = ClearJustPicked \<rparr>]"
proof -
  let ?s = "on_resetNumbers (inLobby [bob])"
  have h: "\<not> isGameOver ?s"
    by (simp add: on_resetNumbers_def run_defs)
  have e: "errorMsg ?s \<noteq> None" "findMe ?s = None" "timers ?s = []" "nextTimerId ?s = 1" "now ?s = 0"
    by (simp_all add: findMe_def on_resetNumbers_def run_defs)
  have "errorMsg (handleNumberSelect 7 ?s) = None \<and> justPickedNumber (handleNumberSelect 7 ?s) \<and>
    timers (handleNumberSelect 7 ?s) =
      timers ?s @ [\<lparr> timer_id = nextTimerId ?s, due = now ?s + 500, callback = ClearJustPicked \<rparr>]"
    using handleNumberSelect_always_clears_and_arms [OF h, of 7] by blast
  then have "errorMsg (handleNumberSelect 7 ?s) = None \<and> justPickedNumber (handleNumberSelect 7 ?s) \<and>
    timers (handleNumberSelect 7 ?s) = [\<lparr> timer_id = 1, due = 500, callback = ClearJustPicked \<rparr>]"
    by (simp only: e) simp
  with h e show ?thesis by blast
qed

text \<open>
  While the flag is set the handler of \<open>error\<close> returns the state it found: the message
  is not displayed, no timer is armed or cancelled for it, and nothing keeps it for later.
  So an error that arrives less than 500 ms after a pick is dropped entirely, provided
  no timer of an earlier pick falls due in between.
\<close>

lemma error_dropped_while_flag_set: "justPickedNumber s \<Longrightarrow> on_error message s = s"
  by (simp add: on_error_def)

lemma error_dropped_after_single_pick:
  assumes "\<not> isGameOver s" and "d < 500"
    and "\<forall>tm \<in> set (timers s). callback tm = ClearJustPicked \<longrightarrow> now s + d < due tm"
  shows "on_error message (elapse d (handleNumberSelect n s)) = elapse d (handleNumberSelect n s)"
  using suppression_window_open [OF assms] by (rule error_dropped_while_flag_set)

text \<open>
  Claim C3, on the code. The local player clicks 3 in the lobby view and, 450 ms later
  and before any roster update, clicks 7: both clicks emit. The second click arms a new
  500 ms timer but leaves the first one pending; that one resets the flag at 500 ms. An
  \<open>error\<close> that arrives at 550 ms, 100 ms after \<open>selectNumber(7)\<close> and inside its window,
  finds the flag reset and is displayed. After a single click of 7 the same error, 100 ms
  later, is dropped and the state is unchanged.
\<close>

theorem second_pick_window_cut_short:
  "outbox (elapse 100 (click_selectNumber 7 (elapse 450 (click_selectNumber 3 (inLobby [alice, bob])))))
     = [SelectNumber 3, SelectNumber 7] \<and>
   now (elapse 100 (click_selectNumber 7 (elapse 450 (click_selectNumber 3 (inLobby [alice, bob]))))) = 550 \<and>
   \<not> justPickedNumber
       (elapse 100 (click_selectNumber 7 (elapse 450 (click_selectNumber 3 (inLobby [alice, bob]))))) \<and>
   errorMsg (on_error (js_str ''taken'')
       (elapse 100 (click_selectNumber 7 (elapse 450 (click_selectNumber 3 (inLobby [alice, bob]))))))
     = Some (js_str ''taken'') \<and>
   on_error (js_str ''taken'') (elapse 100 (click_selectNumber 7 (inLobby [alice, bob])))
     = elapse 100 (click_selectNumber 7 (inLobby [alice, bob]))"
  by (simp add: click_selectNumber_def numberPickerShown_def view_def timer_defs run_defs
      arrayFromLength_upto upto.simps)

subsection \<open>Banners\<close>

lemma banner_replaced: "eliminationInfo (on_playerEliminated info s) = Some info"
  by (simp add: on_playerEliminated_def setTimeout_def)

lemma banner_gone_after_3000:
  assumes "3000 \<le> d"
  shows "eliminationInfo (elapse d (on_playerEliminated info s)) = None"
proof -
  let ?s = "on_playerEliminated info s"
  let ?tm = "\<lparr> timer_id = nextTimerId s, due = now s + 3000, callback = ClearEliminationInfo \<rparr>"
  have "?tm \<in> set (sort_key due (filter (\<lambda>tm. due tm \<le> now ?s + d) (timers ?s)))"
    using assms by (simp add: on_playerEliminated_def setTimeout_def)
  then have "\<exists>tm \<in> set (sort_key due (filter (\<lambda>tm. due tm \<le> now ?s + d) (timers ?s))).
      callback tm = ClearEliminationInfo"
    by (rule bexI [rotated]) simp
  then show ?thesis
    by (simp add: elapse_def Let_def fire_all_clears_banner)
qed

text \<open>
  \<open>playerEliminated\<close> arms its timer without cancelling the one of the banner before: a
  timer still pending from an earlier banner clears the new banner when it falls due.
\<close>

lemma banner_cleared_by_pending_timer:
  assumes "tm \<in> set (timers s)" and "callback tm = ClearEliminationInfo" and "due tm \<le> now s + d"
  shows "eliminationInfo (elapse d (on_playerEliminated info s)) = None"
proof -
  let ?s = "on_playerEliminated info s"
  have "tm \<in> set (sort_key due (filter (\<lambda>tm. due tm \<le> now ?s + d) (timers ?s)))"
    using assms by (simp add: on_playerEliminated_def setTimeout_def)
  with assms(2)
  have "\<exists>tm \<in> set (sort_key due (filter (\<lambda>tm. due tm \<le> now ?s + d) (timers ?s))).
      callback tm = ClearEliminationInfo"
    by blast
  then show ?thesis
    by (simp add: elapse_def Let_def fire_all_clears_banner)
qed

text \<open>
  Claim C5, on the code. Banner A arrives at time 0 and banner B at 2000 ms. B replaces A
  at once and is on display 999 ms later, but at 3000 ms, 1000 ms after it arrived, the
  timer of A clears it, while its own timer, due at 5000 ms, is still pending. The
  handler of \<open>error\<close> does cancel the pending timer: a second error that arrives 2000 ms
  after the first is still displayed 1000 ms later.
\<close>

theorem stale_timer_clears_newer_banner:
  "eliminationInfo (on_playerEliminated bannerB
      (elapse 2000 (on_playerEliminated bannerA mounted))) = Some bannerB \<and>
   eliminationInfo (elapse 999 (on_playerEliminated bannerB
      (elapse 2000 (on_playerEliminated bannerA mounted)))) = Some bannerB \<and>
   eliminationInfo (elapse 1000 (on_playerEliminated bannerB
      (elapse 2000 (on_playerEliminated bannerA mounted)))) = None \<and>
   timers (elapse 1000 (on_playerEliminated bannerB
      (elapse 2000 (on_playerEliminated bannerA mounted)))) =
     [\<lparr> timer_id = 2, due = 5000, callback = ClearEliminationInfo \<rparr>] \<and>
   errorMsg (elapse 1000 (on_error (js_str ''B'')
      (elapse 2000 (on_error (js_str ''A'') mounted)))) = Some (js_str ''B'')"
  by (simp add: on_playerEliminated_def bannerA_def bannerB_def timer_defs mounted_def)

end
